theory Spec2Isabelle
  imports Complex_Main
begin

section \<open>IQSSA: the M/M/1 queue simulator of app.py\<close>

text \<open>
  The computation of app.py is the body of the \<^verbatim>\<open>Run Simulation\<close> branch (lines 26 to 52):
  seed the shared generator, draw the inter-arrival and the service times, accumulate
  the arrival times, run the queue loop over the four tracking arrays and compute the
  four performance metrics.

  A numpy \<^verbatim>\<open>float64\<close> array is a \<open>real list\<close>: the arithmetic of the model is exact,
  rounding is not modelled. The only non-finite values the script can produce come from
  the two divisions of lines 51 and 52 and from the mean of an empty array; they are the
  values of \<open>np_float\<close>. Every Python exception is a value of \<open>py_error\<close>.
\<close>

subsection \<open>Values and errors\<close>

datatype py_error = ZeroDivisionError | ValueError | IndexError

datatype np_float = Finite real | PosInf | NegInf | NaN

text \<open>
  Python's builtin \<^verbatim>\<open>max(a, b)\<close> keeps its first argument unless the second is
  strictly greater.
\<close>

definition py_max :: "real \<Rightarrow> real \<Rightarrow> real" where
  "py_max a b = (if a < b then b else a)"

text \<open>\<^verbatim>\<open>np.zeros(n)\<close>.\<close>

definition np_zeros :: "nat \<Rightarrow> real list" where
  "np_zeros n = replicate n 0"

subsection \<open>Arrival times (line 33)\<close>

text \<open>
  \<^verbatim>\<open>np.cumsum\<close> copies the first element and then adds each element to the running
  total, left to right.
\<close>

fun accumulate :: "real \<Rightarrow> real list \<Rightarrow> real list" where
  "accumulate running [] = []"
| "accumulate running (x # xs) = (running + x) # accumulate (running + x) xs"

definition np_cumsum :: "real list \<Rightarrow> real list" where
  "np_cumsum xs = (case xs of [] \<Rightarrow> [] | x # rest \<Rightarrow> x # accumulate x rest)"

subsection \<open>The queue loop (lines 36 to 46)\<close>

record tracking =
  start_times :: "real list"
  end_times :: "real list"
  wait_times :: "real list"
  turnaround_times :: "real list"

text \<open>Lines 36 to 39: four zero-filled arrays of length \<open>num_customers\<close>.\<close>

definition init_tracking :: "nat \<Rightarrow> tracking" where
  "init_tracking n =
     \<lparr>start_times = np_zeros n, end_times = np_zeros n,
      wait_times = np_zeros n, turnaround_times = np_zeros n\<rparr>"

text \<open>
  Lines 43 to 46, one iteration of the loop at index \<open>i\<close>. An index outside an array
  raises \<^verbatim>\<open>IndexError\<close>, which ends the run; the writes go to index \<open>i\<close> of the four
  tracking arrays, each line reading what the lines before it wrote. The loop calls it
  on \<open>i \<ge> 1\<close> only, where \<open>i - 1\<close> is the index before \<open>i\<close>.
\<close>

definition queue_step :: "real list \<Rightarrow> real list \<Rightarrow> nat \<Rightarrow> tracking \<Rightarrow> py_error + tracking" where
  "queue_step arrival_times service_times i t =
     (if i < length arrival_times \<and> i - 1 < length (end_times t) \<and>
         i < length (start_times t) \<and> i < length service_times \<and>
         i < length (end_times t) \<and> i < length (wait_times t) \<and>
         i < length (turnaround_times t)
      then
        (let st = (start_times t)[i := py_max (arrival_times ! i) (end_times t ! (i - 1))];
             en = (end_times t)[i := st ! i + service_times ! i];
             wt = (wait_times t)[i := st ! i - arrival_times ! i];
             tt = (turnaround_times t)[i := en ! i - arrival_times ! i]
         in Inr \<lparr>start_times = st, end_times = en, wait_times = wt, turnaround_times = tt\<rparr>)
      else Inl IndexError)"

text \<open>The \<^verbatim>\<open>for\<close> loop over a list of indices, stopping at the first exception.\<close>

fun queue_loop :: "real list \<Rightarrow> real list \<Rightarrow> nat list \<Rightarrow> tracking \<Rightarrow> py_error + tracking" where
  "queue_loop arrival_times service_times [] t = Inr t"
| "queue_loop arrival_times service_times (i # rest) t =
     (case queue_step arrival_times service_times i t of
        Inl e \<Rightarrow> Inl e
      | Inr t' \<Rightarrow> queue_loop arrival_times service_times rest t')"

text \<open>
  Lines 36 to 46: the zero-filled arrays and the loop
  \<^verbatim>\<open>for i in range(1, num_customers)\<close>, on the arrival times of line 33.
\<close>

definition simulate_queue :: "nat \<Rightarrow> real list \<Rightarrow> real list \<Rightarrow> py_error + tracking" where
  "simulate_queue num_customers arrival_times service_times =
     queue_loop arrival_times service_times [1..<num_customers] (init_tracking num_customers)"

subsection \<open>Performance metrics (lines 49 to 52)\<close>

text \<open>
  \<^verbatim>\<open>np.mean\<close> of an empty array is \<^verbatim>\<open>nan\<close> (with a warning, not an exception);
  \<^verbatim>\<open>np.sum\<close> adds the elements.
\<close>

definition np_sum :: "real list \<Rightarrow> real" where
  "np_sum xs = sum_list xs"

definition np_mean :: "real list \<Rightarrow> np_float" where
  "np_mean xs = (if xs = [] then NaN else Finite (np_sum xs / real (length xs)))"

text \<open>
  Division of \<^verbatim>\<open>float64\<close> scalars: a zero divisor gives a warning and an infinity of the
  sign of the dividend, or \<^verbatim>\<open>nan\<close> for \<^verbatim>\<open>0/0\<close>; it raises nothing.
\<close>

definition np_divide :: "real \<Rightarrow> real \<Rightarrow> np_float" where
  "np_divide x y =
     (if y \<noteq> 0 then Finite (x / y)
      else if 0 < x then PosInf
      else if x < 0 then NegInf
      else NaN)"

text \<open>\<^verbatim>\<open>xs[-1]\<close>: the last element, \<^verbatim>\<open>IndexError\<close> on an empty array.\<close>

definition np_last :: "real list \<Rightarrow> py_error + real" where
  "np_last xs = (if xs = [] then Inl IndexError else Inr (xs ! (length xs - 1)))"

record metrics =
  avg_wait :: np_float
  avg_turnaround :: np_float
  utilization :: np_float
  throughput :: np_float

definition performance_metrics :: "nat \<Rightarrow> real list \<Rightarrow> tracking \<Rightarrow> py_error + metrics" where
  "performance_metrics num_customers service_times t =
     (let mean_wait = np_mean (wait_times t);
          mean_turnaround = np_mean (turnaround_times t)
      in case np_last (end_times t) of
           Inl e \<Rightarrow> Inl e
         | Inr last_end \<Rightarrow>
             Inr \<lparr>avg_wait = mean_wait, avg_turnaround = mean_turnaround,
                  utilization = np_divide (np_sum service_times) last_end,
                  throughput = np_divide (real num_customers) last_end\<rparr>)"

subsection \<open>The random generator (lines 26 to 30)\<close>

text \<open>
  numpy's generator is a library, not code of app.py: it is a parameter of the model.
  \<open>rng_seed s\<close> is the state \<^verbatim>\<open>np.random.seed(s)\<close> leaves, whatever the state before;
  \<open>rng_draw scale g\<close> is one exponential variate of that scale drawn in state \<open>g\<close>,
  with the state after the draw.
\<close>

record 'g np_random =
  rng_seed :: "nat \<Rightarrow> 'g"
  rng_draw :: "real \<Rightarrow> 'g \<Rightarrow> real \<times> 'g"

text \<open>Filling an array of \<open>k\<close> variates, each draw from the state the one before left.\<close>

fun draws :: "'g np_random \<Rightarrow> real \<Rightarrow> nat \<Rightarrow> 'g \<Rightarrow> real list \<times> 'g" where
  "draws gen scale 0 g = ([], g)"
| "draws gen scale (Suc k) g =
     (case rng_draw gen scale g of
        (x, g') \<Rightarrow> (case draws gen scale k g' of (xs, g'') \<Rightarrow> (x # xs, g'')))"

text \<open>
  \<^verbatim>\<open>np.random.exponential(scale, size)\<close> raises \<^verbatim>\<open>ValueError\<close> for a negative scale and
  for a negative size, before it draws.
\<close>

definition np_random_exponential ::
  "'g np_random \<Rightarrow> real \<Rightarrow> int \<Rightarrow> 'g \<Rightarrow> py_error + (real list \<times> 'g)" where
  "np_random_exponential gen scale count g =
     (if scale < 0 then Inl ValueError
      else if count < 0 then Inl ValueError
      else Inr (draws gen scale (nat count) g))"

text \<open>Python's \<^verbatim>\<open>x / y\<close> on floats.\<close>

definition py_truediv :: "real \<Rightarrow> real \<Rightarrow> py_error + real" where
  "py_truediv x y = (if y = 0 then Inl ZeroDivisionError else Inr (x / y))"

subsection \<open>The run (lines 26 to 52)\<close>

text \<open>
  The four values of the sidebar widgets (lines 17 to 20). The seed widget gives an
  integer from 0 to 9999; \<^verbatim>\<open>np.random.seed\<close> raises for a seed of \<open>2^32\<close> or more, which
  the model leaves out.
\<close>

record config =
  arrival_rate :: real
  service_rate :: real
  num_customers :: int
  random_seed :: nat

text \<open>
  Lines 26 to 30: one call of \<^verbatim>\<open>np.random.seed\<close>, then the two calls of
  \<^verbatim>\<open>np.random.exponential\<close>, the second in the state the first left. The result is the
  two arrays and the state of the shared generator; after an exception, the exception
  and the state the generator was left in.
\<close>

definition generate_times ::
  "'g np_random \<Rightarrow> config \<Rightarrow> 'g \<Rightarrow> (py_error + (real list \<times> real list)) \<times> 'g" where
  "generate_times gen cfg g_before =
     (let g0 = rng_seed gen (random_seed cfg) in
      case py_truediv 1 (arrival_rate cfg) of
        Inl e \<Rightarrow> (Inl e, g0)
      | Inr scale_a \<Rightarrow>
         (case np_random_exponential gen scale_a (num_customers cfg) g0 of
            Inl e \<Rightarrow> (Inl e, g0)
          | Inr (inter_arrival_times, g1) \<Rightarrow>
             (case py_truediv 1 (service_rate cfg) of
                Inl e \<Rightarrow> (Inl e, g1)
              | Inr scale_s \<Rightarrow>
                 (case np_random_exponential gen scale_s (num_customers cfg) g1 of
                    Inl e \<Rightarrow> (Inl e, g1)
                  | Inr (service_times, g2) \<Rightarrow>
                      (Inr (inter_arrival_times, service_times), g2)))))"

record simulation_result =
  res_inter_arrival :: "real list"
  res_service :: "real list"
  res_arrival :: "real list"
  res_tracking :: tracking
  res_metrics :: metrics

text \<open>Lines 33 to 52 on the two generated arrays.\<close>

definition simulate_and_measure :: "nat \<Rightarrow> real list \<Rightarrow> real list \<Rightarrow> py_error + simulation_result" where
  "simulate_and_measure n inter_arrival_times service_times =
     (let arrival_times = np_cumsum inter_arrival_times in
      case simulate_queue n arrival_times service_times of
        Inl e \<Rightarrow> Inl e
      | Inr t \<Rightarrow>
         (case performance_metrics n service_times t of
            Inl e \<Rightarrow> Inl e
          | Inr m \<Rightarrow>
              Inr \<lparr>res_inter_arrival = inter_arrival_times, res_service = service_times,
                   res_arrival = arrival_times, res_tracking = t, res_metrics = m\<rparr>))"

definition run_simulation ::
  "'g np_random \<Rightarrow> config \<Rightarrow> 'g \<Rightarrow> (py_error + simulation_result) \<times> 'g" where
  "run_simulation gen cfg g_before =
     (case generate_times gen cfg g_before of
        (Inl e, g) \<Rightarrow> (Inl e, g)
      | (Inr (inter_arrival_times, service_times), g) \<Rightarrow>
          (simulate_and_measure (nat (num_customers cfg)) inter_arrival_times service_times, g))"

text \<open>
  A small generator to run the model on: the state is a counter, and a draw returns the
  scale times one of 1, 2, 3. It stands in for numpy's generator in the evaluations
  below and in nothing else.
\<close>

definition counter_rng :: "nat np_random" where
  "counter_rng = \<lparr>rng_seed = (\<lambda>s. s), rng_draw = (\<lambda>scale g. (scale * real (Suc (g mod 3)), Suc g))\<rparr>"

subsection \<open>Predicates of the statements\<close>

text \<open>
  The four tracking arrays all have length \<open>n\<close>; record \<open>i\<close> satisfies the four
  assignments of the loop body; record \<open>i\<close> is still as \<^verbatim>\<open>np.zeros\<close> left it.
\<close>

definition lengths_ok :: "nat \<Rightarrow> tracking \<Rightarrow> bool" where
  "lengths_ok n t \<longleftrightarrow> length (start_times t) = n \<and> length (end_times t) = n \<and>
     length (wait_times t) = n \<and> length (turnaround_times t) = n"

definition record_ok :: "real list \<Rightarrow> real list \<Rightarrow> tracking \<Rightarrow> nat \<Rightarrow> bool" where
  "record_ok arr svc t i \<longleftrightarrow>
     start_times t ! i = py_max (arr ! i) (end_times t ! (i - 1)) \<and>
     end_times t ! i = start_times t ! i + svc ! i \<and>
     wait_times t ! i = start_times t ! i - arr ! i \<and>
     turnaround_times t ! i = end_times t ! i - arr ! i"

definition record_zero :: "tracking \<Rightarrow> nat \<Rightarrow> bool" where
  "record_zero t i \<longleftrightarrow> start_times t ! i = 0 \<and> end_times t ! i = 0 \<and>
     wait_times t ! i = 0 \<and> turnaround_times t ! i = 0"

section \<open>Properties\<close>

subsection \<open>Arrival times\<close>

lemma length_accumulate: "length (accumulate r xs) = length xs"
  by (induction xs arbitrary: r) simp_all

lemma length_np_cumsum: "length (np_cumsum xs) = length xs"
  by (simp add: np_cumsum_def length_accumulate split: list.splits)

lemma accumulate_nth:
  "i < length xs \<Longrightarrow> accumulate r xs ! i = r + sum_list (take (Suc i) xs)"
proof (induction xs arbitrary: r i)
  case Nil
  then show ?case by simp
next
  case (Cons x xs)
  show ?case
  proof (cases i)
    case 0
    then show ?thesis by simp
  next
    case (Suc j)
    with Cons.prems have "j < length xs" by simp
    from Cons.IH[OF this, of "r + x"] Suc show ?thesis by simp
  qed
qed

lemma np_cumsum_nth:
  "i < length xs \<Longrightarrow> np_cumsum xs ! i = sum_list (take (Suc i) xs)"
proof (cases xs)
  case Nil
  then show "i < length xs \<Longrightarrow> ?thesis" by simp
next
  case (Cons x rest)
  assume "i < length xs"
  with Cons show ?thesis
    by (cases i) (simp_all add: np_cumsum_def accumulate_nth)
qed

lemma np_cumsum_step:
  assumes "1 \<le> i" "i < length xs"
  shows "np_cumsum xs ! i = np_cumsum xs ! (i - 1) + xs ! i"
proof -
  from assms obtain j where j: "i = Suc j" by (cases i) auto
  with assms have "take (Suc i) xs = take (Suc j) xs @ [xs ! i]"
    by (simp add: take_Suc_conv_app_nth)
  with assms j show ?thesis by (simp add: np_cumsum_nth)
qed

lemma np_cumsum_mono:
  assumes nonneg: "\<forall>x\<in>set xs. 0 \<le> x" and "i \<le> j" "j < length xs"
  shows "np_cumsum xs ! i \<le> np_cumsum xs ! j"
  using \<open>i \<le> j\<close> \<open>j < length xs\<close>
proof (induction j)
  case 0
  then show ?case by simp
next
  case (Suc j)
  show ?case
  proof (cases "i = Suc j")
    case True
    then show ?thesis by simp
  next
    case False
    with Suc.prems have "i \<le> j" "j < length xs" by auto
    then have "np_cumsum xs ! i \<le> np_cumsum xs ! j" by (rule Suc.IH)
    moreover from Suc.prems have "np_cumsum xs ! Suc j = np_cumsum xs ! j + xs ! Suc j"
      using np_cumsum_step[of "Suc j" xs] by simp
    moreover from Suc.prems nonneg have "0 \<le> xs ! Suc j" by simp
    ultimately show ?thesis by simp
  qed
qed

text \<open>
  Claim C7. For non-negative inter-arrival times, the arrival times are the running sums:
  \<open>arrival_time[0] = inter_arrival_times[0]\<close>,
  \<open>arrival_time[i] = arrival_time[i - 1] + inter_arrival_times[i]\<close> for every \<open>i \<ge> 1\<close>,
  and the sequence is non-decreasing in the index.
\<close>

theorem arrival_times_cumulative:
  assumes "\<forall>x\<in>set inter_arrival_times. 0 \<le> x"
  shows "length (np_cumsum inter_arrival_times) = length inter_arrival_times \<and>
    (inter_arrival_times \<noteq> [] \<longrightarrow> np_cumsum inter_arrival_times ! 0 = inter_arrival_times ! 0) \<and>
    (\<forall>i. 1 \<le> i \<and> i < length inter_arrival_times \<longrightarrow>
       np_cumsum inter_arrival_times ! i =
         np_cumsum inter_arrival_times ! (i - 1) + inter_arrival_times ! i) \<and>
    (\<forall>i j. i \<le> j \<and> j < length inter_arrival_times \<longrightarrow>
       np_cumsum inter_arrival_times ! i \<le> np_cumsum inter_arrival_times ! j)"
proof (intro conjI allI impI)
  show "length (np_cumsum inter_arrival_times) = length inter_arrival_times"
    by (rule length_np_cumsum)
next
  assume "inter_arrival_times \<noteq> []"
  then show "np_cumsum inter_arrival_times ! 0 = inter_arrival_times ! 0"
    by (cases inter_arrival_times) (simp_all add: np_cumsum_def)
next
  fix i assume "1 \<le> i \<and> i < length inter_arrival_times"
  then show "np_cumsum inter_arrival_times ! i =
      np_cumsum inter_arrival_times ! (i - 1) + inter_arrival_times ! i"
    by (simp add: np_cumsum_step)
next
  fix i j assume "i \<le> j \<and> j < length inter_arrival_times"
  with assms show "np_cumsum inter_arrival_times ! i \<le> np_cumsum inter_arrival_times ! j"
    by (simp add: np_cumsum_mono)
qed

theorem arrival_times_cumulative_witness:
  "np_cumsum [1, 0, 2] = [1, 1, 3] \<and> np_cumsum [1, 0, 2] ! 1 \<le> np_cumsum [1, 0, 2] ! 2"
proof -
  have "\<forall>x\<in>set [1, 0, 2 :: real]. 0 \<le> x" by simp
  from arrival_times_cumulative[OF this]
  have "np_cumsum [1, 0, 2] ! 1 \<le> np_cumsum [1, 0, 2] ! 2" by simp
  moreover have "np_cumsum [1, 0, 2] = [1, 1, 3]" by (simp add: np_cumsum_def)
  ultimately show ?thesis by simp
qed

subsection \<open>The queue loop\<close>

lemma py_max_max: "py_max a b = max a b"
  by (simp add: py_max_def max_def)

lemma queue_loop_snoc:
  "queue_loop arr svc (js @ [k]) t =
     (case queue_loop arr svc js t of Inl e \<Rightarrow> Inl e | Inr t' \<Rightarrow> queue_step arr svc k t')"
  by (induction js arbitrary: t) (auto split: sum.splits)
lemma queue_step_inv:
  assumes "lengths_ok n t" "1 \<le> k" "k < n" "n \<le> length arr" "n \<le> length svc"
    and "\<forall>i. 1 \<le> i \<and> i < k \<longrightarrow> record_ok arr svc t i"
    and "\<forall>i. i < n \<and> (i = 0 \<or> k \<le> i) \<longrightarrow> record_zero t i"
  shows "\<exists>t'. queue_step arr svc k t = Inr t' \<and> lengths_ok n t' \<and>
     (\<forall>i. 1 \<le> i \<and> i < Suc k \<longrightarrow> record_ok arr svc t' i) \<and>
     (\<forall>i. i < n \<and> (i = 0 \<or> Suc k \<le> i) \<longrightarrow> record_zero t' i)"
  using assms
  apply (simp add: queue_step_def lengths_ok_def Let_def)
  apply (intro conjI allI impI)
   apply (case_tac "i = k")
    apply (simp add: record_ok_def)
   apply (simp add: record_ok_def nth_list_update)
  apply (auto simp: record_zero_def nth_list_update)
  done

lemma queue_loop_inv:
  assumes "n \<le> length arr" "n \<le> length svc"
  shows "1 \<le> k \<Longrightarrow> k \<le> n \<Longrightarrow>
     \<exists>t. queue_loop arr svc [1..<k] (init_tracking n) = Inr t \<and> lengths_ok n t \<and>
       (\<forall>i. 1 \<le> i \<and> i < k \<longrightarrow> record_ok arr svc t i) \<and>
       (\<forall>i. i < n \<and> (i = 0 \<or> k \<le> i) \<longrightarrow> record_zero t i)"
proof (induction k)
  case 0
  then show ?case by simp
next
  case (Suc k)
  show ?case
  proof (cases "k = 0")
    case True
    then show ?thesis
      by (simp add: init_tracking_def np_zeros_def lengths_ok_def record_zero_def)
  next
    case False
    with Suc obtain t where t: "queue_loop arr svc [1..<k] (init_tracking n) = Inr t"
      "lengths_ok n t" "\<forall>i. 1 \<le> i \<and> i < k \<longrightarrow> record_ok arr svc t i"
      "\<forall>i. i < n \<and> (i = 0 \<or> k \<le> i) \<longrightarrow> record_zero t i"
      by auto
    from False Suc.prems have k: "1 \<le> k" "k < n" by auto
    from queue_step_inv[OF t(2) k assms t(3) t(4)] obtain t' where
      "queue_step arr svc k t = Inr t'" "lengths_ok n t'"
      "\<forall>i. 1 \<le> i \<and> i < Suc k \<longrightarrow> record_ok arr svc t' i"
      "\<forall>i. i < n \<and> (i = 0 \<or> Suc k \<le> i) \<longrightarrow> record_zero t' i" by blast
    moreover from k have "[1..<Suc k] = [1..<k] @ [k]" by simp
    ultimately show ?thesis using t(1) by (simp only: queue_loop_snoc) simp
  qed
qed

lemma simulate_queue_inv:
  assumes "n \<le> length arr" "n \<le> length svc"
  shows "\<exists>t. simulate_queue n arr svc = Inr t \<and> lengths_ok n t \<and>
       (\<forall>i. 1 \<le> i \<and> i < n \<longrightarrow> record_ok arr svc t i) \<and>
       (0 < n \<longrightarrow> record_zero t 0)"
proof (cases "n = 0")
  case True
  then show ?thesis
    by (simp add: simulate_queue_def init_tracking_def np_zeros_def lengths_ok_def)
next
  case False
  then have "1 \<le> n" "n \<le> n" by simp_all
  from queue_loop_inv[OF assms this] show ?thesis
    unfolding simulate_queue_def by auto
qed

text \<open>
  Claim C1. On inter-arrival and service times of length \<open>n\<close> the loop returns four
  arrays of length \<open>n\<close> in which every record \<open>i\<close> from 1 to \<open>n - 1\<close> satisfies
  \<open>start_time[i] = max(arrival_time[i], end_time[i - 1])\<close>,
  \<open>end_time[i] = start_time[i] + service_time[i]\<close>,
  \<open>wait_time[i] = start_time[i] - arrival_time[i]\<close> and
  \<open>turnaround_time[i] = end_time[i] - arrival_time[i]\<close>, and record 0 keeps the four zeros
  of its initialisation.
\<close>

theorem simulate_queue_recurrence:
  assumes "length inter_arrival_times = n" and "length service_times = n"
  shows "\<exists>t. simulate_queue n (np_cumsum inter_arrival_times) service_times = Inr t \<and>
     length (start_times t) = n \<and> length (end_times t) = n \<and>
     length (wait_times t) = n \<and> length (turnaround_times t) = n \<and>
     (\<forall>i. 1 \<le> i \<and> i < n \<longrightarrow>
        start_times t ! i = max (np_cumsum inter_arrival_times ! i) (end_times t ! (i - 1)) \<and>
        end_times t ! i = start_times t ! i + service_times ! i \<and>
        wait_times t ! i = start_times t ! i - np_cumsum inter_arrival_times ! i \<and>
        turnaround_times t ! i = end_times t ! i - np_cumsum inter_arrival_times ! i) \<and>
     (0 < n \<longrightarrow> start_times t ! 0 = 0 \<and> end_times t ! 0 = 0 \<and>
        wait_times t ! 0 = 0 \<and> turnaround_times t ! 0 = 0)"
proof -
  from assms have "n \<le> length (np_cumsum inter_arrival_times)" "n \<le> length service_times"
    by (simp_all add: length_np_cumsum)
  from simulate_queue_inv[OF this] show ?thesis
    by (auto simp: lengths_ok_def record_ok_def record_zero_def py_max_max)
qed

theorem simulate_queue_recurrence_witness:
  "\<exists>t. simulate_queue 3 (np_cumsum [1, 1, 4]) [2, 2, 1] = Inr t \<and>
     start_times t ! 2 = max (np_cumsum [1, 1, 4] ! 2) (end_times t ! 1) \<and>
     end_times t ! 2 = start_times t ! 2 + 1 \<and>
     start_times t ! 0 = 0 \<and> end_times t ! 0 = 0"
  using simulate_queue_recurrence[of "[1, 1, 4]" 3 "[2, 2, 1]"] by auto

text \<open>
  Claim C8. With non-negative service times, every record \<open>i \<ge> 1\<close> of the trace has
  \<open>start_time[i] \<ge> arrival_time[i]\<close>, \<open>start_time[i] \<ge> end_time[i - 1]\<close>,
  \<open>wait_time[i] \<ge> 0\<close> and \<open>turnaround_time[i] \<ge> wait_time[i]\<close>.
\<close>

theorem queue_order_invariants:
  assumes "length arrival_times = n" and "length service_times = n"
    and "\<forall>x\<in>set service_times. 0 \<le> x"
  shows "\<exists>t. simulate_queue n arrival_times service_times = Inr t \<and>
     (\<forall>i. 1 \<le> i \<and> i < n \<longrightarrow>
        arrival_times ! i \<le> start_times t ! i \<and>
        end_times t ! (i - 1) \<le> start_times t ! i \<and>
        0 \<le> wait_times t ! i \<and>
        wait_times t ! i \<le> turnaround_times t ! i)"
proof -
  from assms have "n \<le> length arrival_times" "n \<le> length service_times" by simp_all
  from simulate_queue_inv[OF this] obtain t where
    t: "simulate_queue n arrival_times service_times = Inr t"
    and ok: "\<forall>i. 1 \<le> i \<and> i < n \<longrightarrow> record_ok arrival_times service_times t i"
    by blast
  have "arrival_times ! i \<le> start_times t ! i \<and>
        end_times t ! (i - 1) \<le> start_times t ! i \<and>
        0 \<le> wait_times t ! i \<and>
        wait_times t ! i \<le> turnaround_times t ! i" if i: "1 \<le> i \<and> i < n" for i
  proof -
    from i assms have "0 \<le> service_times ! i" by simp
    with ok i show ?thesis
      by (simp add: record_ok_def py_max_max)
  qed
  with t show ?thesis by blast
qed

theorem queue_order_invariants_witness:
  "\<exists>t. simulate_queue 3 [1, 2, 6] [2, 2, 1] = Inr t \<and>
     2 \<le> start_times t ! 1 \<and> end_times t ! 0 \<le> start_times t ! 1 \<and>
     0 \<le> wait_times t ! 1 \<and> wait_times t ! 1 \<le> turnaround_times t ! 1"
  using queue_order_invariants[of "[1, 2, 6]" 3 "[2, 2, 1]"] by auto

text \<open>
  Claim C10. With non-negative service times the end times are non-decreasing over all
  indices, record 1 against the zero of record 0 included.
\<close>

theorem end_times_nondecreasing:
  assumes "length arrival_times = n" and "length service_times = n"
    and "\<forall>x\<in>set service_times. 0 \<le> x"
  shows "\<exists>t. simulate_queue n arrival_times service_times = Inr t \<and>
     (\<forall>i. 1 \<le> i \<and> i < n \<longrightarrow> end_times t ! (i - 1) \<le> end_times t ! i) \<and>
     sorted (end_times t)"
proof -
  from assms have "n \<le> length arrival_times" "n \<le> length service_times" by simp_all
  from simulate_queue_inv[OF this] obtain t where
    t: "simulate_queue n arrival_times service_times = Inr t"
    and len: "lengths_ok n t"
    and ok: "\<forall>i. 1 \<le> i \<and> i < n \<longrightarrow> record_ok arrival_times service_times t i"
    by blast
  have step: "end_times t ! (i - 1) \<le> end_times t ! i" if i: "1 \<le> i \<and> i < n" for i
  proof -
    from i assms have "0 \<le> service_times ! i" by simp
    with ok i show ?thesis
      by (simp add: record_ok_def py_max_max)
  qed
  have "sorted (end_times t)"
    unfolding sorted_iff_nth_Suc
  proof (intro allI impI)
    fix i assume "Suc i < length (end_times t)"
    with len have "1 \<le> Suc i \<and> Suc i < n" by (simp add: lengths_ok_def)
    from step[OF this] show "end_times t ! i \<le> end_times t ! Suc i" by simp
  qed
  with t step show ?thesis by blast
qed

theorem end_times_nondecreasing_witness:
  "\<exists>t. simulate_queue 3 [1, 2, 6] [2, 2, 1] = Inr t \<and>
     end_times t ! 0 \<le> end_times t ! 1 \<and> end_times t ! 1 \<le> end_times t ! 2 \<and>
     sorted (end_times t)"
proof -
  have "\<forall>x\<in>set [2, 2, 1 :: real]. 0 \<le> x" by simp
  from end_times_nondecreasing[of "[1, 2, 6]" 3 "[2, 2, 1]", OF _ _ this]
  obtain t where t: "simulate_queue 3 [1, 2, 6] [2, 2, 1] = Inr t"
    and step: "\<forall>i. 1 \<le> i \<and> i < 3 \<longrightarrow> end_times t ! (i - 1) \<le> end_times t ! i"
    and srt: "sorted (end_times t)" by auto
  from spec[OF step, of 1] have "end_times t ! 0 \<le> end_times t ! 1" by simp
  moreover from spec[OF step, of 2] have "end_times t ! 1 \<le> end_times t ! 2" by simp
  ultimately show ?thesis using t srt by auto
qed

text \<open>
  Claim C2 says that the first customer starts at its arrival, \<open>start_time[0] = arrival_time[0]\<close>.
  The loop starts at index 1, so record 0 is never written: on two customers with
  inter-arrival times 1 the first arrives at time 1, and its start stays 0.
\<close>

theorem first_customer_start_is_zero:
  "np_cumsum [1, 1] = [1, 2] \<and>
   simulate_queue 2 [1, 2] [1, 1] =
     Inr \<lparr>start_times = [0, 2], end_times = [0, 3], wait_times = [0, 0],
          turnaround_times = [0, 1]\<rparr>"
  by (simp add: simulate_queue_def init_tracking_def np_zeros_def queue_step_def py_max_def
      np_cumsum_def Let_def upt_rec numeral_2_eq_2)

subsection \<open>Performance metrics\<close>

lemma performance_metrics_nonempty:
  assumes "0 < n" and "lengths_ok n t"
  shows "performance_metrics n svc t =
     Inr \<lparr>avg_wait = Finite (sum_list (wait_times t) / real n),
          avg_turnaround = Finite (sum_list (turnaround_times t) / real n),
          utilization = np_divide (sum_list svc) (end_times t ! (n - 1)),
          throughput = np_divide (real n) (end_times t ! (n - 1))\<rparr>"
proof -
  from assms have "wait_times t \<noteq> []" "turnaround_times t \<noteq> []" "end_times t \<noteq> []"
    by (auto simp: lengths_ok_def)
  with assms show ?thesis
    by (simp add: performance_metrics_def np_mean_def np_sum_def np_last_def lengths_ok_def)
qed

lemma simulate_and_measure_ok:
  assumes "0 < n" and "length ia = n" and "length svc = n"
  shows "\<exists>t. simulate_queue n (np_cumsum ia) svc = Inr t \<and> lengths_ok n t \<and>
     (n = 1 \<longrightarrow> record_zero t 0) \<and>
     simulate_and_measure n ia svc =
       Inr \<lparr>res_inter_arrival = ia, res_service = svc, res_arrival = np_cumsum ia,
            res_tracking = t,
            res_metrics =
              \<lparr>avg_wait = Finite (sum_list (wait_times t) / real n),
               avg_turnaround = Finite (sum_list (turnaround_times t) / real n),
               utilization = np_divide (sum_list svc) (end_times t ! (n - 1)),
               throughput = np_divide (real n) (end_times t ! (n - 1))\<rparr>\<rparr>"
proof -
  from assms have "n \<le> length (np_cumsum ia)" "n \<le> length svc"
    by (simp_all add: length_np_cumsum)
  from simulate_queue_inv[OF this] assms(1) obtain t where
    t: "simulate_queue n (np_cumsum ia) svc = Inr t" "lengths_ok n t" "record_zero t 0"
    by blast
  from performance_metrics_nonempty[OF assms(1) t(2), of svc] t show ?thesis
    by (simp add: simulate_and_measure_def)
qed

text \<open>
  Claim C4. On \<open>n \<ge> 1\<close> customers the run returns the four metrics:
  \<open>avg_wait\<close> is the sum of the wait times of all \<open>n\<close> records, record 0 included, divided
  by \<open>n\<close>; \<open>avg_turnaround\<close> the same over the turnaround times; \<open>utilization\<close> is the sum of
  all service times divided by \<open>end_time[n - 1]\<close>, and \<open>throughput\<close> is \<open>n\<close> divided by
  \<open>end_time[n - 1]\<close>.
\<close>

theorem metrics_formulas:
  assumes "0 < n" and "length inter_arrival_times = n" and "length service_times = n"
  shows "\<exists>r. simulate_and_measure n inter_arrival_times service_times = Inr r \<and>
     simulate_queue n (np_cumsum inter_arrival_times) service_times = Inr (res_tracking r) \<and>
     avg_wait (res_metrics r) =
       Finite ((\<Sum>i = 0..<n. wait_times (res_tracking r) ! i) / real n) \<and>
     avg_turnaround (res_metrics r) =
       Finite ((\<Sum>i = 0..<n. turnaround_times (res_tracking r) ! i) / real n) \<and>
     utilization (res_metrics r) =
       np_divide (\<Sum>i = 0..<n. service_times ! i) (end_times (res_tracking r) ! (n - 1)) \<and>
     throughput (res_metrics r) = np_divide (real n) (end_times (res_tracking r) ! (n - 1)) \<and>
     (end_times (res_tracking r) ! (n - 1) \<noteq> 0 \<longrightarrow>
        utilization (res_metrics r) =
          Finite ((\<Sum>i = 0..<n. service_times ! i) / end_times (res_tracking r) ! (n - 1)) \<and>
        throughput (res_metrics r) = Finite (real n / end_times (res_tracking r) ! (n - 1)))"
proof -
  from simulate_and_measure_ok[OF assms] obtain t where
    t: "simulate_queue n (np_cumsum inter_arrival_times) service_times = Inr t"
    and len: "lengths_ok n t"
    and r: "simulate_and_measure n inter_arrival_times service_times =
       Inr \<lparr>res_inter_arrival = inter_arrival_times, res_service = service_times,
            res_arrival = np_cumsum inter_arrival_times, res_tracking = t,
            res_metrics =
              \<lparr>avg_wait = Finite (sum_list (wait_times t) / real n),
               avg_turnaround = Finite (sum_list (turnaround_times t) / real n),
               utilization = np_divide (sum_list service_times) (end_times t ! (n - 1)),
               throughput = np_divide (real n) (end_times t ! (n - 1))\<rparr>\<rparr>"
    by blast
  from len have w: "sum_list (wait_times t) = (\<Sum>i = 0..<n. wait_times t ! i)"
    and tt: "sum_list (turnaround_times t) = (\<Sum>i = 0..<n. turnaround_times t ! i)"
    using sum_list_sum_nth[of "wait_times t"] sum_list_sum_nth[of "turnaround_times t"]
    by (simp_all add: lengths_ok_def)
  from assms have s: "sum_list service_times = (\<Sum>i = 0..<n. service_times ! i)"
    using sum_list_sum_nth[of service_times] by simp
  from r t show ?thesis
    by (simp add: w tt s np_divide_def)
qed

theorem metrics_formulas_witness:
  "\<exists>r. simulate_and_measure 3 [1, 1, 4] [2, 2, 1] = Inr r \<and>
     avg_wait (res_metrics r) = Finite ((\<Sum>i = 0..<3. wait_times (res_tracking r) ! i) / 3) \<and>
     throughput (res_metrics r) = np_divide 3 (end_times (res_tracking r) ! 2)"
  using metrics_formulas[of 3 "[1, 1, 4]" "[2, 2, 1]"] by auto

text \<open>
  Claim C6, amended. When \<open>end_time[n - 1] = 0\<close> the two divisions raise nothing and the
  trace is the one the loop returned, but the values are not \<^verbatim>\<open>nan\<close> or \<^verbatim>\<open>None\<close>:
  \<open>throughput\<close> is plus infinity, and \<open>utilization\<close> is plus infinity when the service
  times sum to a positive value, \<^verbatim>\<open>nan\<close> only when they sum to zero. For \<open>n = 1\<close> the single
  record is all zeros, so this is the case of every run on one customer.
\<close>

theorem degenerate_horizon_infinite:
  assumes "0 < n" and "length inter_arrival_times = n" and "length service_times = n"
  shows "\<exists>r. simulate_and_measure n inter_arrival_times service_times = Inr r \<and>
     simulate_queue n (np_cumsum inter_arrival_times) service_times = Inr (res_tracking r) \<and>
     (n = 1 \<longrightarrow> res_tracking r =
        \<lparr>start_times = [0], end_times = [0], wait_times = [0], turnaround_times = [0]\<rparr>) \<and>
     (end_times (res_tracking r) ! (n - 1) = 0 \<longrightarrow>
        throughput (res_metrics r) = PosInf \<and>
        utilization (res_metrics r) =
          (if 0 < sum_list service_times then PosInf
           else if sum_list service_times < 0 then NegInf
           else NaN))"
proof -
  from simulate_and_measure_ok[OF assms] obtain t where
    t: "simulate_queue n (np_cumsum inter_arrival_times) service_times = Inr t"
    and len: "lengths_ok n t"
    and z: "n = 1 \<longrightarrow> record_zero t 0"
    and r: "simulate_and_measure n inter_arrival_times service_times =
       Inr \<lparr>res_inter_arrival = inter_arrival_times, res_service = service_times,
            res_arrival = np_cumsum inter_arrival_times, res_tracking = t,
            res_metrics =
              \<lparr>avg_wait = Finite (sum_list (wait_times t) / real n),
               avg_turnaround = Finite (sum_list (turnaround_times t) / real n),
               utilization = np_divide (sum_list service_times) (end_times t ! (n - 1)),
               throughput = np_divide (real n) (end_times t ! (n - 1))\<rparr>\<rparr>"
    by blast
  have one: "t = \<lparr>start_times = [0], end_times = [0], wait_times = [0], turnaround_times = [0]\<rparr>"
    if "n = 1"
  proof -
    from that len z have "start_times t = [0]" "end_times t = [0]" "wait_times t = [0]"
      "turnaround_times t = [0]"
      by (auto simp: lengths_ok_def record_zero_def length_Suc_conv)
    then show ?thesis by simp
  qed
  from assms(1) r t one show ?thesis
    by (simp add: np_divide_def)
qed

theorem degenerate_horizon_infinite_witness:
  "\<exists>r. simulate_and_measure 1 [1] [1] = Inr r \<and> end_times (res_tracking r) = [0] \<and>
     throughput (res_metrics r) = PosInf \<and> utilization (res_metrics r) = PosInf"
  using degenerate_horizon_infinite[of 1 "[1]" "[1]"] by auto

text \<open>
  Claim C6 as stated fails on one customer with service time 1: both metrics are plus
  infinity, not \<^verbatim>\<open>nan\<close>.
\<close>

theorem degenerate_horizon_counterexample:
  "simulate_and_measure 1 [1] [1] =
     Inr \<lparr>res_inter_arrival = [1], res_service = [1], res_arrival = [1],
          res_tracking = \<lparr>start_times = [0], end_times = [0], wait_times = [0],
            turnaround_times = [0]\<rparr>,
          res_metrics = \<lparr>avg_wait = Finite 0, avg_turnaround = Finite 0,
            utilization = PosInf, throughput = PosInf\<rparr>\<rparr> \<and>
   PosInf \<noteq> NaN"
  by (simp add: simulate_and_measure_def simulate_queue_def init_tracking_def np_zeros_def
      np_cumsum_def performance_metrics_def np_mean_def np_sum_def np_divide_def np_last_def
      Let_def)

subsection \<open>The generator\<close>

lemma draws_2:
  "draws gen scale 2 g =
     (case rng_draw gen scale g of
        (x, g') \<Rightarrow> (case rng_draw gen scale g' of (y, g'') \<Rightarrow> ([x, y], g'')))"
  by (simp add: numeral_2_eq_2 split: prod.splits)

lemma length_draws: "length (fst (draws gen scale k g)) = k"
proof (induction k arbitrary: g)
  case 0
  show ?case by simp
next
  case (Suc k)
  obtain x g' where d: "rng_draw gen scale g = (x, g')" by (cases "rng_draw gen scale g")
  obtain xs g'' where r: "draws gen scale k g' = (xs, g'')" by (cases "draws gen scale k g'")
  from Suc[of g'] r have "length xs = k" by simp
  with d r show ?case by simp
qed

lemma generate_times_valid:
  assumes "0 < arrival_rate cfg" and "0 < service_rate cfg" and "0 \<le> num_customers cfg"
    and "draws gen (1 / arrival_rate cfg) (nat (num_customers cfg))
           (rng_seed gen (random_seed cfg)) = (ia, g1)"
    and "draws gen (1 / service_rate cfg) (nat (num_customers cfg)) g1 = (svc, g2)"
  shows "generate_times gen cfg g_before = (Inr (ia, svc), g2)"
  using assms
  by (simp add: generate_times_def py_truediv_def np_random_exponential_def Let_def)

text \<open>
  Claim C3, amended. The generator is seeded once. The inter-arrival times are drawn from
  the freshly seeded state; the service times are drawn from the state the first draw
  left, so they continue its stream.
\<close>

theorem seed_once_then_two_draws:
  assumes "0 < arrival_rate cfg" and "0 < service_rate cfg" and "0 \<le> num_customers cfg"
  shows "\<exists>ia g1 svc g2.
     draws gen (1 / arrival_rate cfg) (nat (num_customers cfg))
       (rng_seed gen (random_seed cfg)) = (ia, g1) \<and>
     draws gen (1 / service_rate cfg) (nat (num_customers cfg)) g1 = (svc, g2) \<and>
     generate_times gen cfg g_before = (Inr (ia, svc), g2)"
proof -
  obtain ia g1 where a: "draws gen (1 / arrival_rate cfg) (nat (num_customers cfg))
       (rng_seed gen (random_seed cfg)) = (ia, g1)" by (cases "draws gen (1 / arrival_rate cfg) (nat (num_customers cfg))
       (rng_seed gen (random_seed cfg))")
  obtain svc g2 where b: "draws gen (1 / service_rate cfg) (nat (num_customers cfg)) g1 = (svc, g2)"
    by (cases "draws gen (1 / service_rate cfg) (nat (num_customers cfg)) g1")
  from generate_times_valid[OF assms a b] a b show ?thesis by blast
qed

theorem seed_once_then_two_draws_witness:
  "generate_times counter_rng
     \<lparr>arrival_rate = 1, service_rate = 1, num_customers = 2, random_seed = 0\<rparr> 5 =
     (Inr ([1, 2], [3, 1]), 4)"
  using seed_once_then_two_draws[of "\<lparr>arrival_rate = 1, service_rate = 1, num_customers = 2, random_seed = 0\<rparr>" counter_rng 5]
  by (simp add: draws_2 counter_rng_def)

text \<open>
  Claim C3 as stated fails: with the counter generator the service times of the run are
  \<open>[3, 1]\<close>, the continuation of the stream, where a generator seeded again would have
  given \<open>[1, 2]\<close>, the inter-arrival times once more.
\<close>

theorem reseed_counterexample:
  "fst (generate_times counter_rng
     \<lparr>arrival_rate = 1, service_rate = 1, num_customers = 2, random_seed = 0\<rparr> 0) = Inr ([1, 2], [3, 1]) \<and>
   fst (draws counter_rng
     (1 / service_rate \<lparr>arrival_rate = 1, service_rate = 1, num_customers = 2, random_seed = 0\<rparr>) 2
     (rng_seed counter_rng (random_seed \<lparr>arrival_rate = 1, service_rate = 1, num_customers = 2, random_seed = 0\<rparr>))) = [1, 2]"
  by (simp add: generate_times_def py_truediv_def np_random_exponential_def counter_rng_def
      Let_def draws_2)

subsection \<open>The whole run\<close>

lemma config_eqI:
  "arrival_rate c1 = arrival_rate c2 \<Longrightarrow> service_rate c1 = service_rate c2 \<Longrightarrow>
   num_customers c1 = num_customers c2 \<Longrightarrow> random_seed c1 = random_seed c2 \<Longrightarrow>
   c1 = (c2 :: config)"
  by simp

lemma generate_times_state_independent:
  "generate_times gen cfg g = generate_times gen cfg g'"
  by (simp add: generate_times_def)

text \<open>
  Claim C9. Two runs on the same arrival rate, service rate, customer count and seed
  return the same records and the same four metrics (and leave the generator in the same
  state), whatever state the shared generator was in before each run.
\<close>

theorem run_simulation_deterministic:
  assumes "arrival_rate c1 = arrival_rate c2" and "service_rate c1 = service_rate c2"
    and "num_customers c1 = num_customers c2" and "random_seed c1 = random_seed c2"
  shows "run_simulation gen c1 g = run_simulation gen c2 g'"
proof -
  from assms have "c1 = c2" by (rule config_eqI)
  moreover have "generate_times gen c2 g = generate_times gen c2 g'"
    by (rule generate_times_state_independent)
  ultimately show ?thesis by (simp add: run_simulation_def)
qed

theorem run_simulation_deterministic_witness:
  "run_simulation counter_rng
     \<lparr>arrival_rate = 2, service_rate = 4, num_customers = 1, random_seed = 0\<rparr> 7 =
   run_simulation counter_rng
     \<lparr>arrival_rate = 2, service_rate = 4, num_customers = 1, random_seed = 0\<rparr> 99"
  using run_simulation_deterministic[of
      "\<lparr>arrival_rate = 2, service_rate = 4, num_customers = 1, random_seed = 0\<rparr>"
      "\<lparr>arrival_rate = 2, service_rate = 4, num_customers = 1, random_seed = 0\<rparr>"
      counter_rng 7 99]
  by simp

lemma simulate_and_measure_empty: "simulate_and_measure 0 [] [] = Inl IndexError"
  by (simp add: simulate_and_measure_def simulate_queue_def init_tracking_def np_zeros_def
      np_cumsum_def performance_metrics_def np_mean_def np_last_def Let_def)

lemma draws_3:
  "draws gen scale 3 g =
     (case rng_draw gen scale g of
        (x, g1) \<Rightarrow> (case rng_draw gen scale g1 of
          (y, g2) \<Rightarrow> (case rng_draw gen scale g2 of (z, g3) \<Rightarrow> ([x, y, z], g3))))"
  by (simp add: numeral_3_eq_3 split: prod.splits)

text \<open>
  Claim C5, amended. Nothing validates the parameters and there is no InvalidParameter
  error. For a seed \<^verbatim>\<open>np.random.seed\<close> accepts (below \<open>2^32\<close>; the widget of line 20 gives
  0 to 9999), when \<open>arrival_rate \<le> 0\<close>, \<open>service_rate \<le> 0\<close> or the customer count is below 1,
  the run ends in a Python exception and returns no result, and it does so only after
  the shared generator was seeded:
  \<^item> a zero arrival rate raises \<^verbatim>\<open>ZeroDivisionError\<close>, and a negative arrival rate or a
    negative count raises numpy's \<^verbatim>\<open>ValueError\<close>, both with the generator left in its
    freshly seeded state;
  \<^item> a zero service rate raises \<^verbatim>\<open>ZeroDivisionError\<close> and a negative one \<^verbatim>\<open>ValueError\<close>,
    both after the inter-arrival times were drawn, with the generator left in the state
    after that draw;
  \<^item> a count of 0 with positive rates raises \<^verbatim>\<open>IndexError\<close>: the two draws return empty
    arrays, the loop runs on them and returns the empty trace, and \<^verbatim>\<open>end_times[-1]\<close> of
    the metrics raises.
\<close>

theorem invalid_parameters_raise:
  assumes "arrival_rate cfg \<le> 0 \<or> service_rate cfg \<le> 0 \<or> num_customers cfg < 1"
    and "random_seed cfg < 2 ^ 32"
  shows "run_simulation gen cfg g_before =
     (let g0 = rng_seed gen (random_seed cfg);
          g1 = snd (draws gen (1 / arrival_rate cfg) (nat (num_customers cfg)) g0)
      in if arrival_rate cfg = 0 then (Inl ZeroDivisionError, g0)
         else if arrival_rate cfg < 0 \<or> num_customers cfg < 0 then (Inl ValueError, g0)
         else if service_rate cfg = 0 then (Inl ZeroDivisionError, g1)
         else if service_rate cfg < 0 then (Inl ValueError, g1)
         else (Inl IndexError, g0)) \<and>
     (0 < arrival_rate cfg \<and> 0 < service_rate cfg \<and> num_customers cfg = 0 \<longrightarrow>
        generate_times gen cfg g_before = (Inr ([], []), rng_seed gen (random_seed cfg)) \<and>
        simulate_queue 0 (np_cumsum []) [] =
          Inr \<lparr>start_times = [], end_times = [], wait_times = [], turnaround_times = []\<rparr> \<and>
        performance_metrics 0 []
          \<lparr>start_times = [], end_times = [], wait_times = [], turnaround_times = []\<rparr> =
          Inl IndexError)"
proof -
  consider (a0) "arrival_rate cfg = 0"
    | (aneg) "arrival_rate cfg < 0"
    | (nneg) "0 < arrival_rate cfg" "num_customers cfg < 0"
    | (s0) "0 < arrival_rate cfg" "0 \<le> num_customers cfg" "service_rate cfg = 0"
    | (sneg) "0 < arrival_rate cfg" "0 \<le> num_customers cfg" "service_rate cfg < 0"
    | (n0) "0 < arrival_rate cfg" "0 < service_rate cfg" "num_customers cfg = 0"
    using assms(1) by fastforce
  then show ?thesis
  proof cases
    case a0
    then show ?thesis
      by (simp add: run_simulation_def generate_times_def py_truediv_def Let_def)
  next
    case aneg
    then show ?thesis
      by (simp add: run_simulation_def generate_times_def py_truediv_def
          np_random_exponential_def Let_def)
  next
    case nneg
    with assms(1) show ?thesis
      by (simp add: run_simulation_def generate_times_def py_truediv_def
          np_random_exponential_def Let_def)
  next
    case s0
    then show ?thesis
      by (simp add: run_simulation_def generate_times_def py_truediv_def
          np_random_exponential_def Let_def split: prod.splits)
  next
    case sneg
    then show ?thesis
      by (simp add: run_simulation_def generate_times_def py_truediv_def
          np_random_exponential_def Let_def split: prod.splits)
  next
    case n0
    then show ?thesis
      by (simp add: run_simulation_def generate_times_def py_truediv_def
          np_random_exponential_def simulate_and_measure_empty Let_def
          simulate_queue_def init_tracking_def np_zeros_def np_cumsum_def
          performance_metrics_def np_mean_def np_last_def)
  qed
qed

theorem invalid_parameters_raise_witness:
  "run_simulation counter_rng
     \<lparr>arrival_rate = 2, service_rate = - 1, num_customers = 3, random_seed = 0\<rparr> 7 =
   (Inl ValueError, 3)"
  using invalid_parameters_raise[of
      "\<lparr>arrival_rate = 2, service_rate = - 1, num_customers = 3, random_seed = 0\<rparr>"
      counter_rng 7]
  by (simp add: draws_3 counter_rng_def)

text \<open>
  Claim C5 as stated fails: a zero arrival rate ends the run in \<^verbatim>\<open>ZeroDivisionError\<close>
  with the generator already seeded (state 42, not the 0 it had before), and on a customer
  count of 0 the queue loop runs and returns the empty trace before the metrics raise
  \<^verbatim>\<open>IndexError\<close>.
\<close>

theorem invalid_parameter_counterexample:
  "run_simulation counter_rng
     \<lparr>arrival_rate = 0, service_rate = 3, num_customers = 1000, random_seed = 42\<rparr> 0 =
     (Inl ZeroDivisionError, 42) \<and>
   simulate_queue 0 (np_cumsum []) [] =
     Inr \<lparr>start_times = [], end_times = [], wait_times = [], turnaround_times = []\<rparr> \<and>
   run_simulation counter_rng
     \<lparr>arrival_rate = 2, service_rate = 3, num_customers = 0, random_seed = 42\<rparr> 0 =
     (Inl IndexError, 42)"
  by (simp add: run_simulation_def generate_times_def py_truediv_def
      np_random_exponential_def counter_rng_def simulate_and_measure_empty
      simulate_queue_def init_tracking_def np_zeros_def np_cumsum_def)

end
